theory Spec2Isabelle
  imports Main
begin

section \<open>JavaScript values\<close>

text \<open>
  The values that flow through the adapter and the persisted snapshot are JSON-like
  JavaScript values. \<open>JUndefined\<close> is JavaScript's \<open>undefined\<close> (an absent field or
  an absent payload), \<open>JNum\<close> holds the integers the code handles (millisecond clocks and
  versions). An object is its list of properties in insertion order, with distinct keys;
  that JavaScript enumerates integer-like keys first is not modelled (no property below
  depends on the order of an object's keys).
\<close>

datatype json =
    JUndefined
  | JNull
  | JBool bool
  | JNum int
  | JStr string
  | JArr "json list"
  | JObj "(string \<times> json) list"

text \<open>What a \<open>throw\<close> of the source carries: a \<open>TypeError\<close> raised by the runtime
  (reading a property of \<open>undefined\<close> or \<open>null\<close>, \<open>in\<close> on a non-object), or
  \<open>new Error(message)\<close>.\<close>

datatype js_error = TypeError | Error string

text \<open>\<open>v == null\<close>: the test behind \<open>??\<close> and \<open>?.\<close>.\<close>

definition isNullish :: "json \<Rightarrow> bool" where
  "isNullish v = (v = JUndefined \<or> v = JNull)"

text \<open>\<open>v ?? d\<close>.\<close>

definition nullish :: "json \<Rightarrow> json \<Rightarrow> json" where
  "nullish v d = (if isNullish v then d else v)"

text \<open>\<open>v.k\<close> for a \<open>v\<close> that is neither \<open>undefined\<close> nor \<open>null\<close> (the callers test
  that first, since there the read throws). None of the property names the code reads is
  a built-in property of a string, a number, a boolean or an array, so on those the read
  gives \<open>undefined\<close>.\<close>

fun getProp :: "json \<Rightarrow> string \<Rightarrow> json" where
  "getProp (JObj kvs) k = (case map_of kvs k of None \<Rightarrow> JUndefined | Some v \<Rightarrow> v)"
| "getProp _ k = JUndefined"

text \<open>\<open>v?.k\<close>.\<close>

definition optProp :: "json \<Rightarrow> string \<Rightarrow> json" where
  "optProp v k = (if isNullish v then JUndefined else getProp v k)"

text \<open>\<open>k in v\<close>: a \<open>TypeError\<close> unless \<open>v\<close> is an object (arrays are objects with
  none of the names asked for).\<close>

fun hasProp :: "string \<Rightarrow> json \<Rightarrow> js_error + bool" where
  "hasProp k (JObj kvs) = Inr (k \<in> set (map fst kvs))"
| "hasProp k (JArr xs) = Inr False"
| "hasProp k _ = Inl TypeError"

text \<open>JavaScript truthiness, as \<open>c ? a : b\<close> and \<open>!v\<close> read it.\<close>

fun truthy :: "json \<Rightarrow> bool" where
  "truthy JUndefined = False"
| "truthy JNull = False"
| "truthy (JBool b) = b"
| "truthy (JNum n) = (n \<noteq> 0)"
| "truthy (JStr s) = (s \<noteq> [])"
| "truthy (JArr xs) = True"
| "truthy (JObj kvs) = True"

section \<open>The protocol adapter (services/copilot-backend.ts)\<close>

text \<open>A \<open>SessionEvent\<close> of the SDK. The adapter guards \<open>event.id\<close> and \<open>event.data\<close>
  with \<open>??\<close>, so both may be absent (\<open>None\<close>, \<open>JUndefined\<close>).\<close>

record session_event =
  ev_id :: "string option"
  ev_timestamp :: string
  ev_parentId :: "string option"
  ev_type :: string
  ev_data :: json

text \<open>An \<open>AppServerEvent\<close>: the canonical event handed to the consumers.\<close>

record server_message =
  msg_method :: string
  msg_params :: json

record app_server_event =
  workspace_id :: string
  message :: server_message

definition mapEventToMethod :: "session_event \<Rightarrow> string option" where
  "mapEventToMethod event =
     (let t = ev_type event in
      if t = ''session.idle'' then Some ''turn/completed''
      else if t = ''session.error'' then Some ''error''
      else if t = ''assistant.message'' then Some ''item/completed''
      else if t = ''assistant.message_delta'' then Some ''item/agentMessage/delta''
      else if t = ''tool.execution_start'' then Some ''item/started''
      else if t = ''tool.execution_complete'' then Some ''item/completed''
      else if t = ''assistant.reasoning'' then Some ''item/reasoning/textDelta''
      else if t = ''assistant.reasoning_delta'' then Some ''item/reasoning/textDelta''
      else if t = ''assistant.turn_start'' then Some ''turn/started''
      else if t = ''assistant.turn_end'' then Some ''turn/completed''
      else None)"

text \<open>\<open>event.id ?? "current"\<close>.\<close>

definition eventIdOr :: "session_event \<Rightarrow> string \<Rightarrow> json" where
  "eventIdOr event d = JStr (case ev_id event of None \<Rightarrow> d | Some i \<Rightarrow> i)"

definition mkEvent :: "string \<Rightarrow> string \<Rightarrow> json \<Rightarrow> app_server_event" where
  "mkEvent workspaceId m p =
     \<lparr>workspace_id = workspaceId, message = \<lparr>msg_method = m, msg_params = p\<rparr>\<rparr>"

text \<open>The \<open>turn\<close> object of the three turn events.\<close>

definition turnParams :: "string \<Rightarrow> json \<Rightarrow> json" where
  "turnParams workspaceId turnId =
     JObj [(''threadId'', JStr workspaceId),
           (''turn'', JObj [(''id'', turnId), (''threadId'', JStr workspaceId)])]"

text \<open>The second \<open>switch\<close> of \<open>transformEvent\<close>: the params of a mapped event. A branch
  that starts with \<open>const data = event.data\<close> and reads a field of it throws a
  \<open>TypeError\<close> when the payload is absent.\<close>

definition eventParams :: "string \<Rightarrow> session_event \<Rightarrow> js_error + json" where
  "eventParams workspaceId event =
     (let t = ev_type event; dat = ev_data event in
      if t = ''assistant.message_delta'' then
        (if isNullish dat then Inl TypeError
         else Inr (JObj [(''threadId'', JStr workspaceId),
                         (''itemId'', eventIdOr event ''current''),
                         (''delta'', nullish (getProp dat ''deltaContent'') (JStr ''''))]))
      else if t = ''assistant.message'' then
        (if isNullish dat then Inl TypeError
         else Inr (JObj [(''threadId'', JStr workspaceId),
                         (''item'', JObj [(''id'', eventIdOr event ''current''),
                                          (''type'', JStr ''agentMessage''),
                                          (''text'', nullish (getProp dat ''content'') (JStr ''''))])]))
      else if t = ''session.idle'' then
        Inr (turnParams workspaceId (JStr ''current''))
      else if t = ''session.error'' then
        (if isNullish dat then Inl TypeError
         else Inr (JObj [(''threadId'', JStr workspaceId),
                         (''turnId'', JStr ''current''),
                         (''error'', JObj [(''message'', nullish (getProp dat ''message'') (JStr ''Unknown error'')),
                                           (''code'', getProp dat ''errorType'')]),
                         (''willRetry'', JBool False)]))
      else if t = ''tool.execution_start'' then
        (if isNullish dat then Inl TypeError
         else Inr (JObj [(''threadId'', JStr workspaceId),
                         (''item'', JObj [(''id'', nullish (getProp dat ''toolCallId'') (JStr ''tool'')),
                                          (''type'', JStr ''tool''),
                                          (''toolType'', nullish (getProp dat ''toolName'') (JStr ''unknown'')),
                                          (''status'', JStr ''running''),
                                          (''arguments'', getProp dat ''arguments'')])]))
      else if t = ''tool.execution_complete'' then
        (if isNullish dat then Inl TypeError
         else Inr (JObj [(''threadId'', JStr workspaceId),
                         (''item'', JObj [(''id'', nullish (getProp dat ''toolCallId'') (JStr ''tool'')),
                                          (''type'', JStr ''tool''),
                                          (''toolType'', JStr ''unknown''),
                                          (''status'', JStr (if truthy (getProp dat ''success'') then ''completed'' else ''error'')),
                                          (''output'', nullish (optProp (getProp dat ''result'') ''content'')
                                                         (nullish (optProp (getProp dat ''error'') ''message'') (JStr '''')))])]))
      else if t = ''assistant.reasoning'' \<or> t = ''assistant.reasoning_delta'' then
        (case hasProp ''deltaContent'' dat of
           Inl e \<Rightarrow> Inl e
         | Inr present \<Rightarrow>
             Inr (JObj [(''threadId'', JStr workspaceId),
                        (''itemId'', JStr ''reasoning''),
                        (''delta'', if present then getProp dat ''deltaContent''
                                    else nullish (getProp dat ''content'') (JStr ''''))]))
      else if t = ''assistant.turn_start'' then
        Inr (turnParams workspaceId (eventIdOr event ''current''))
      else if t = ''assistant.turn_end'' then
        Inr (turnParams workspaceId (eventIdOr event ''current''))
      else Inr (nullish dat (JObj [])))"

text \<open>\<open>transformEvent\<close>. Its declared result is \<open>AppServerEvent | null\<close>; \<open>Inr None\<close>
  stands for \<open>null\<close> and \<open>Inl\<close> for a throw. \<open>!method\<close> holds for \<open>null\<close> and for the
  empty string.\<close>

definition transformEvent :: "string \<Rightarrow> session_event \<Rightarrow> js_error + app_server_event option" where
  "transformEvent workspaceId event =
     (case mapEventToMethod event of
        None \<Rightarrow>
          Inr (Some (mkEvent workspaceId (''copilot/'' @ ev_type event) (nullish (ev_data event) (JObj []))))
      | Some m \<Rightarrow>
          if m = [] then
            Inr (Some (mkEvent workspaceId (''copilot/'' @ ev_type event) (nullish (ev_data event) (JObj []))))
          else
            (case eventParams workspaceId event of
               Inl e \<Rightarrow> Inl e
             | Inr p \<Rightarrow> Inr (Some (mkEvent workspaceId m p))))"

section \<open>Numbers in template literals\<close>

text \<open>\<open>`${n}`\<close> for an integer \<open>n\<close>: its decimal digits, with a minus sign below zero.\<close>

definition digitChar :: "nat \<Rightarrow> char" where
  "digitChar d = ''0123456789'' ! d"

fun showNat :: "nat \<Rightarrow> string" where
  "showNat n = (if n < 10 then [digitChar n] else showNat (n div 10) @ [digitChar (n mod 10)])"

declare showNat.simps [simp del]

definition showInt :: "int \<Rightarrow> string" where
  "showInt i = (if i < 0 then ''-'' @ showNat (nat (- i)) else showNat (nat i))"

section \<open>The SDK service (services/copilot-sdk.ts)\<close>

text \<open>The objects of \<open>@github/copilot-sdk\<close> are outside the repository. A client is what
  \<open>connectWorkspace\<close> built it from, a session is its \<open>sessionId\<close>, and what the SDK
  answers to a call is a parameter of the model: each call either rejects (\<open>Inl\<close>) or
  resolves (\<open>Inr\<close>).\<close>

record copilot_client =
  client_cwd :: string
  client_cliPath :: "string option"
  client_cliArgs :: "string list option"

record copilot_session =
  sessionId :: string

record model_info =
  model_id :: string
  model_name :: "string option"

record auth_status =
  isAuthenticated :: bool
  login :: "string option"

record sdk =
  sdk_createSession :: "copilot_client \<Rightarrow> json \<Rightarrow> js_error + copilot_session"
  sdk_destroy :: "copilot_session \<Rightarrow> js_error + unit"
  sdk_abort :: "copilot_session \<Rightarrow> js_error + unit"
  sdk_send :: "copilot_session \<Rightarrow> json \<Rightarrow> js_error + string"
  sdk_listModels :: "copilot_client \<Rightarrow> js_error + model_info list"
  sdk_getAuthStatus :: "copilot_client \<Rightarrow> js_error + auth_status"

text \<open>\<open>CopilotWorkspaceClient\<close>, the value type of the \<open>workspaceClients\<close> map.\<close>

record copilot_workspace_client =
  client :: copilot_client
  session :: "copilot_session option"
  workspacePath :: string
  connected :: bool

text \<open>The module state of the service and of the event bus: the connection map
  \<open>workspaceClients\<close> and, in order, the events handed to \<open>emitAppServerEvent\<close>.\<close>

record service_state =
  workspaceClients :: "string \<rightharpoonup> copilot_workspace_client"
  emitted :: "app_server_event list"

text \<open>Modelled from the spec: \<open>emitAppServerEvent\<close> (services/events, not under src/)
  delivers a canonical event to the consumers of the event stream; the model records the
  delivered events in the order of the calls.\<close>

definition emitAppServerEvent :: "app_server_event \<Rightarrow> service_state \<Rightarrow> service_state" where
  "emitAppServerEvent ev s = s\<lparr>emitted := emitted s @ [ev]\<rparr>"

text \<open>The event callback that \<open>initCopilotBackend\<close> installs with
  \<open>setGlobalEventCallback\<close>: translate, and emit what is not \<open>null\<close>.\<close>

definition copilotEventCallback :: "string \<Rightarrow> session_event \<Rightarrow> service_state \<Rightarrow> js_error + service_state" where
  "copilotEventCallback workspaceId event s =
     (case transformEvent workspaceId event of
        Inl e \<Rightarrow> Inl e
      | Inr None \<Rightarrow> Inr s
      | Inr (Some transformedEvent) \<Rightarrow> Inr (emitAppServerEvent transformedEvent s))"

text \<open>Writing a property of an object: in place when the key is there, at the end
  otherwise.\<close>

fun setProp :: "'k \<Rightarrow> 'v \<Rightarrow> ('k \<times> 'v) list \<Rightarrow> ('k \<times> 'v) list" where
  "setProp k v [] = [(k, v)]"
| "setProp k v ((k', v') # kvs) = (if k = k' then (k, v) # kvs else (k', v') # setProp k v kvs)"

text \<open>\<open>{ ...base, ...config }\<close>: the properties of \<open>config\<close> written over \<open>base\<close>.\<close>

definition spread :: "(string \<times> json) list \<Rightarrow> (string \<times> json) list \<Rightarrow> (string \<times> json) list" where
  "spread base config = fold (\<lambda>(k, v) acc. setProp k v acc) config base"

text \<open>\<open>sessionConfig\<close> of \<open>createSession\<close>; \<open>config\<close> is \<open>None\<close> when the argument is
  left out.\<close>

definition sessionConfig :: "(string \<times> json) list option \<Rightarrow> json" where
  "sessionConfig config =
     JObj (spread
       [(''model'', nullish (case config of None \<Rightarrow> JUndefined | Some c \<Rightarrow> getProp (JObj c) ''model'')
                      (JStr ''claude-sonnet-4'')),
        (''streaming'', JBool True)]
       (case config of None \<Rightarrow> [] | Some c \<Rightarrow> c))"

definition notConnected :: "string \<Rightarrow> js_error" where
  "notConnected workspaceId = Error (''Workspace '' @ workspaceId @ '' is not connected'')"

definition setSession :: "string \<Rightarrow> copilot_workspace_client \<Rightarrow> copilot_session option \<Rightarrow> service_state \<Rightarrow> service_state" where
  "setSession workspaceId workspace sess s =
     s\<lparr>workspaceClients := (workspaceClients s)(workspaceId \<mapsto> workspace\<lparr>session := sess\<rparr>)\<rparr>"

text \<open>\<open>createSession\<close>. The listener that \<open>session.on\<close> registers lives in the SDK's
  session object; it routes the session's events to \<open>copilotEventCallback\<close>.\<close>

definition createSession :: "sdk \<Rightarrow> string \<Rightarrow> (string \<times> json) list option \<Rightarrow> service_state \<Rightarrow> (js_error + string) \<times> service_state" where
  "createSession k workspaceId config s =
     (case workspaceClients s workspaceId of
        None \<Rightarrow> (Inl (notConnected workspaceId), s)
      | Some workspace \<Rightarrow>
          (case (case session workspace of
                   None \<Rightarrow> Inr s
                 | Some old \<Rightarrow>
                     (case sdk_destroy k old of
                        Inl e \<Rightarrow> Inl e
                      | Inr _ \<Rightarrow> Inr (setSession workspaceId workspace None s))) of
             Inl e \<Rightarrow> (Inl e, s)
           | Inr s1 \<Rightarrow>
               (case sdk_createSession k (client workspace) (sessionConfig config) of
                  Inl e \<Rightarrow> (Inl e, s1)
                | Inr new \<Rightarrow> (Inr (sessionId new), setSession workspaceId workspace (Some new) s1))))"

text \<open>\<open>workspaceClients.get(workspaceId)?.session\<close>: the session of a connected
  workspace that has one.\<close>

definition activeSession :: "service_state \<Rightarrow> string \<Rightarrow> copilot_session option" where
  "activeSession s workspaceId =
     (case workspaceClients s workspaceId of None \<Rightarrow> None | Some workspace \<Rightarrow> session workspace)"

definition noActiveSession :: "string \<Rightarrow> js_error" where
  "noActiveSession workspaceId = Error (''No active session for workspace '' @ workspaceId)"

text \<open>The options of \<open>sendMessage\<close> and of \<open>sendUserMessage\<close>: a model (\<open>null\<close> and
  \<open>undefined\<close> are both \<open>None\<close>) and image paths.\<close>

record send_options =
  opt_model :: "string option"
  opt_images :: "string list option"

text \<open>\<open>messageOptions\<close> of \<open>sendMessage\<close>: attachments only for a non-empty list of
  images.\<close>

definition messageOptions :: "string \<Rightarrow> send_options option \<Rightarrow> json" where
  "messageOptions txt options =
     (case (case options of None \<Rightarrow> None | Some opts \<Rightarrow> opt_images opts) of
        None \<Rightarrow> JObj [(''prompt'', JStr txt)]
      | Some images \<Rightarrow>
          if images = [] then JObj [(''prompt'', JStr txt)]
          else JObj [(''prompt'', JStr txt),
                     (''attachments'',
                        JArr (map (\<lambda>path. JObj [(''type'', JStr ''file''), (''path'', JStr path)]) images))])"

definition sendMessage :: "sdk \<Rightarrow> string \<Rightarrow> string \<Rightarrow> send_options option \<Rightarrow> service_state \<Rightarrow> (js_error + string) \<times> service_state" where
  "sendMessage k workspaceId txt options s =
     (case activeSession s workspaceId of
        None \<Rightarrow> (Inl (noActiveSession workspaceId), s)
      | Some sess \<Rightarrow> (sdk_send k sess (messageOptions txt options), s))"

definition abortSession :: "sdk \<Rightarrow> string \<Rightarrow> service_state \<Rightarrow> (js_error + unit) \<times> service_state" where
  "abortSession k workspaceId s =
     (case activeSession s workspaceId of
        None \<Rightarrow> (Inr (), s)
      | Some sess \<Rightarrow> (sdk_abort k sess, s))"

text \<open>\<open>listModels\<close>: each model as \<open>(id, name ?? id)\<close>.\<close>

definition listModels :: "sdk \<Rightarrow> string \<Rightarrow> service_state \<Rightarrow> (js_error + (string \<times> string) list) \<times> service_state" where
  "listModels k workspaceId s =
     (case workspaceClients s workspaceId of
        None \<Rightarrow> (Inl (notConnected workspaceId), s)
      | Some workspace \<Rightarrow>
          (case sdk_listModels k (client workspace) of
             Inl e \<Rightarrow> (Inl e, s)
           | Inr models \<Rightarrow>
               (Inr (map (\<lambda>m. (model_id m, case model_name m of None \<Rightarrow> model_id m | Some n \<Rightarrow> n)) models), s)))"

text \<open>\<open>getAuthStatus\<close>: \<open>(authenticated, user)\<close>.\<close>

definition getAuthStatus :: "sdk \<Rightarrow> string \<Rightarrow> service_state \<Rightarrow> (js_error + bool \<times> string option) \<times> service_state" where
  "getAuthStatus k workspaceId s =
     (case workspaceClients s workspaceId of
        None \<Rightarrow> (Inl (notConnected workspaceId), s)
      | Some workspace \<Rightarrow>
          (case sdk_getAuthStatus k (client workspace) of
             Inl e \<Rightarrow> (Inl e, s)
           | Inr status \<Rightarrow> (Inr (isAuthenticated status, login status), s)))"

section \<open>The backend commands (services/copilot-backend.ts)\<close>

text \<open>The \<open>turn/started\<close> event that \<open>sendUserMessage\<close> emits; \<open>now\<close> is what
  \<open>Date.now()\<close> returned.\<close>

definition turnStartedEvent :: "string \<Rightarrow> string \<Rightarrow> int \<Rightarrow> app_server_event" where
  "turnStartedEvent workspaceId threadId now =
     mkEvent workspaceId ''turn/started''
       (JObj [(''threadId'', JStr threadId),
              (''turn'', JObj [(''id'', JStr (''turn-'' @ showInt now)),
                               (''threadId'', JStr threadId)])])"

text \<open>The options \<open>sendUserMessage\<close> forwards:
  \<open>{ model: options?.model ?? undefined, images: options?.images }\<close>.\<close>

definition forwardedOptions :: "send_options option \<Rightarrow> send_options option" where
  "forwardedOptions options =
     Some \<lparr>opt_model = (case options of None \<Rightarrow> None | Some opts \<Rightarrow> opt_model opts),
           opt_images = (case options of None \<Rightarrow> None | Some opts \<Rightarrow> opt_images opts)\<rparr>"

definition sendUserMessage :: "sdk \<Rightarrow> int \<Rightarrow> string \<Rightarrow> string \<Rightarrow> string \<Rightarrow> send_options option \<Rightarrow> service_state \<Rightarrow> (js_error + unit) \<times> service_state" where
  "sendUserMessage k now workspaceId threadId txt options s =
     (case sendMessage k workspaceId txt (forwardedOptions options)
             (emitAppServerEvent (turnStartedEvent workspaceId threadId now) s) of
        (Inl e, s') \<Rightarrow> (Inl e, s')
      | (Inr _, s') \<Rightarrow> (Inr (), s'))"

definition interruptTurn :: "sdk \<Rightarrow> string \<Rightarrow> service_state \<Rightarrow> (js_error + unit) \<times> service_state" where
  "interruptTurn k workspaceId s = abortSession k workspaceId s"

section \<open>JSON.stringify\<close>

text \<open>\<open>JSON.stringify\<close> on the values above: a property whose value is \<open>undefined\<close> is
  left out of an object, \<open>undefined\<close> in an array is written \<open>null\<close>; quotes,
  backslashes and control characters of a string are escaped. Strings are byte sequences
  here, and bytes from 0x20 on are written as they are.\<close>

definition hexChar :: "nat \<Rightarrow> char" where
  "hexChar d = ''0123456789abcdef'' ! d"

definition escapeChar :: "char \<Rightarrow> string" where
  "escapeChar c =
     (if c = CHR 0x22 then [CHR 0x5C, CHR 0x22]
      else if c = CHR 0x5C then [CHR 0x5C, CHR 0x5C]
      else if c = CHR 0x08 then [CHR 0x5C, CHR ''b'']
      else if c = CHR 0x0C then [CHR 0x5C, CHR ''f'']
      else if c = CHR 0x0A then [CHR 0x5C, CHR ''n'']
      else if c = CHR 0x0D then [CHR 0x5C, CHR ''r'']
      else if c = CHR 0x09 then [CHR 0x5C, CHR ''t'']
      else if (of_char c :: nat) < 32 then
        [CHR 0x5C, CHR ''u'', CHR ''0'', CHR ''0'', hexChar (of_char c div 16), hexChar (of_char c mod 16)]
      else [c])"

definition quote :: "string \<Rightarrow> string" where
  "quote s = [CHR 0x22] @ concat (map escapeChar s) @ [CHR 0x22]"

fun joinWith :: "string \<Rightarrow> string list \<Rightarrow> string" where
  "joinWith sep [] = []"
| "joinWith sep [x] = x"
| "joinWith sep (x # y # ys) = x @ sep @ joinWith sep (y # ys)"

fun stringify :: "json \<Rightarrow> string" where
  "stringify JUndefined = ''null''"
| "stringify JNull = ''null''"
| "stringify (JBool b) = (if b then ''true'' else ''false'')"
| "stringify (JNum n) = showInt n"
| "stringify (JStr s) = quote s"
| "stringify (JArr xs) = ''['' @ joinWith '','' (map stringify xs) @ '']''"
| "stringify (JObj kvs) =
     ''{'' @ joinWith '',''
        (map (\<lambda>(k, v). quote k @ '':'' @ stringify v) (filter (\<lambda>(k, v). v \<noteq> JUndefined) kvs)) @ ''}''"

section \<open>Thread state (features/threads/hooks/useThreads.ts)\<close>

text \<open>Modelled from the spec: \<open>ThreadSummary\<close> (types.ts, not under src/) with the
  thread's id, display name and updated timestamp; \<open>useThreads\<close> reads \<open>id\<close> and
  \<open>updatedAt\<close>, and guards the latter with \<open>??\<close>.\<close>

record thread_summary =
  ts_id :: string
  ts_name :: string
  ts_updatedAt :: "int option"

text \<open>An entry of \<open>state.threadStatusById\<close>, with the flags \<open>useThreads\<close> reads and
  clears.\<close>

record thread_status =
  isProcessing :: bool
  isReviewing :: bool

text \<open>The part of the reducer state that \<open>useThreads\<close> reads. Each \<open>Record\<close> is the list
  of its entries in key order (\<open>Object.keys\<close>), read with \<open>map_of\<close>. A conversation item
  is a JSON object with fields \<open>kind\<close>, \<open>role\<close>, \<open>text\<close>.\<close>

record thread_state =
  threadsByWorkspace :: "(string \<times> thread_summary list) list"
  itemsByThread :: "(string \<times> json list) list"
  threadParentById :: "(string \<times> string) list"
  threadStatusById :: "(string \<times> thread_status) list"
  activeTurnIdByThread :: "(string \<times> string option) list"
  activeThreadIdByWorkspace :: "(string \<times> string option) list"

text \<open>The actions \<open>useThreads\<close> dispatches to the reducer.\<close>

datatype thread_action =
    SetThreads string "thread_summary list"
  | SetThreadItems string "json list"
  | SetLastAgentMessage string json int
  | SetThreadParent string string
  | SetActiveThreadId string "string option"
  | AddAssistantMessage string string
  | MarkUnread string bool
  | SetThreadTimestamp string string int
  | RemoveThread string string
  | SetThreadName string string string

text \<open>What a callback of \<open>useThreads\<close> does besides computing: a dispatch, or a call of a
  callback of another hook (\<open>markReviewing\<close>, \<open>markProcessing\<close>, \<open>setActiveTurnId\<close> of
  \<open>useThreadStatus\<close>, \<open>recordThreadActivity\<close> of \<open>useThreadStorage\<close>,
  \<open>safeMessageActivity\<close>), in the order of the source.\<close>

datatype effect =
    Dispatch thread_action
  | MarkReviewing string bool
  | MarkProcessing string bool
  | SetActiveTurnId string "string option"
  | RecordThreadActivity string string int
  | SafeMessageActivity



text \<open>\<open>state.threadsByWorkspace[workspaceId] ?? []\<close>.\<close>

definition existingThreadsOf :: "thread_state \<Rightarrow> string \<Rightarrow> thread_summary list" where
  "existingThreadsOf state workspaceId =
     (case map_of (threadsByWorkspace state) workspaceId of None \<Rightarrow> [] | Some ts \<Rightarrow> ts)"









subsection \<open>Saving the history\<close>

text \<open>A thread summary as the JSON object it is, with the fields modelled above.\<close>

definition threadJson :: "thread_summary \<Rightarrow> json" where
  "threadJson thread =
     JObj [(''id'', JStr (ts_id thread)),
           (''name'', JStr (ts_name thread)),
           (''updatedAt'', (case ts_updatedAt thread of None \<Rightarrow> JUndefined | Some u \<Rightarrow> JNum u))]"

text \<open>The two objects that \<open>threads.forEach\<close> fills in \<open>buildThreadHistorySnapshot\<close>:
  the non-empty item logs and the non-empty parent ids of the workspace's threads.\<close>

definition snapshotItems :: "thread_state \<Rightarrow> thread_summary list \<Rightarrow> (string \<times> json) list" where
  "snapshotItems state threads =
     fold (\<lambda>thread acc.
             (case map_of (itemsByThread state) (ts_id thread) of
                None \<Rightarrow> acc
              | Some items \<Rightarrow> if items \<noteq> [] then setProp (ts_id thread) (JArr items) acc else acc))
          threads []"

definition snapshotParents :: "thread_state \<Rightarrow> thread_summary list \<Rightarrow> (string \<times> json) list" where
  "snapshotParents state threads =
     fold (\<lambda>thread acc.
             (case map_of (threadParentById state) (ts_id thread) of
                None \<Rightarrow> acc
              | Some parentId \<Rightarrow> if parentId \<noteq> [] then setProp (ts_id thread) (JStr parentId) acc else acc))
          threads []"

text \<open>\<open>buildThreadHistorySnapshot\<close>: the snapshot object; \<open>now\<close> is what \<open>Date.now()\<close>
  returns for \<open>savedAt\<close>.\<close>

definition buildThreadHistorySnapshot :: "thread_state \<Rightarrow> int \<Rightarrow> string \<Rightarrow> json" where
  "buildThreadHistorySnapshot state now workspaceId =
     (let threads = existingThreadsOf state workspaceId in
      JObj [(''version'', JNum 1),
            (''workspaceId'', JStr workspaceId),
            (''activeThreadId'',
               (case map_of (activeThreadIdByWorkspace state) workspaceId of
                  Some (Some a) \<Rightarrow> JStr a
                | _ \<Rightarrow> JNull)),
            (''threads'', JArr (map threadJson threads)),
            (''itemsByThread'', JObj (snapshotItems state threads)),
            (''threadParentById'', JObj (snapshotParents state threads)),
            (''savedAt'', JNum now)])"

text \<open>The persistence side of the save effect: \<open>lastSavedHistoryRef\<close> (the serialized
  form last recorded for each workspace) and, in order, the calls of
  \<open>saveThreadHistory(workspaceId, snapshot)\<close> (services/tauri), each one write.\<close>

record save_state =
  lastSavedHistory :: "string \<rightharpoonup> string"
  writes :: "(string \<times> json) list"

text \<open>The body of \<open>workspaceIds.forEach\<close> in the timer callback of the save effect.\<close>

definition saveWorkspaceHistory :: "thread_state \<Rightarrow> int \<Rightarrow> string \<Rightarrow> save_state \<Rightarrow> save_state" where
  "saveWorkspaceHistory state now workspaceId sv =
     (let snapshot = buildThreadHistorySnapshot state now workspaceId;
          serialized = stringify snapshot
      in if lastSavedHistory sv workspaceId = Some serialized then sv
         else \<lparr>lastSavedHistory = (lastSavedHistory sv)(workspaceId \<mapsto> serialized),
               writes = writes sv @ [(workspaceId, snapshot)]\<rparr>)"

text \<open>The ids of \<open>new Set([...Object.keys(threadsByWorkspace),
  ...Object.keys(activeThreadIdByWorkspace)])\<close>, each once, in the order of its first
  occurrence.\<close>

definition historyWorkspaceIds :: "thread_state \<Rightarrow> string list" where
  "historyWorkspaceIds state =
     rev (remdups (rev (map fst (threadsByWorkspace state) @ map fst (activeThreadIdByWorkspace state))))"

text \<open>The timer callback of the save effect; \<open>clock workspaceId\<close> is what \<open>Date.now()\<close>
  returns while that workspace's snapshot is built.\<close>

definition saveHistory :: "thread_state \<Rightarrow> (string \<Rightarrow> int) \<Rightarrow> save_state \<Rightarrow> save_state" where
  "saveHistory state clock sv =
     fold (\<lambda>workspaceId acc. saveWorkspaceHistory state (clock workspaceId) workspaceId acc)
          (historyWorkspaceIds state) sv"

subsection \<open>Detached review completion\<close>

definition noticeKey :: "string \<Rightarrow> string \<Rightarrow> string" where
  "noticeKey parentId threadId = parentId @ ''->'' @ threadId"

definition noticeText :: "string \<Rightarrow> string" where
  "noticeText threadId =
     ''Detached review completed. [Open review thread](/thread/'' @ threadId @ '')''"

text \<open>\<open>handleReviewExited\<close>: the effects in order, and \<open>detachedReviewNoticeRef\<close> after
  the call. \<open>activeThreadId\<close> comes from \<open>useThreadSelectors\<close> (\<open>None\<close> is \<open>null\<close>),
  \<open>now\<close> from \<open>Date.now()\<close>.\<close>

definition handleReviewExited :: "thread_state \<Rightarrow> string option \<Rightarrow> int \<Rightarrow> string set \<Rightarrow> string \<Rightarrow> string \<Rightarrow> effect list \<times> string set" where
  "handleReviewExited state activeThreadId now notices workspaceId threadId =
     (case map_of (threadParentById state) threadId of
        None \<Rightarrow> ([], notices)
      | Some parentId \<Rightarrow>
          if parentId = [] \<or> parentId = threadId then ([], notices)
          else
            (case map_of (threadStatusById state) parentId of
               None \<Rightarrow> ([], notices)
             | Some parentStatus \<Rightarrow>
                 if \<not> isReviewing parentStatus then ([], notices)
                 else
                   ([MarkReviewing parentId False,
                     MarkProcessing parentId False,
                     SetActiveTurnId parentId None,
                     RecordThreadActivity workspaceId parentId now,
                     Dispatch (SetThreadTimestamp workspaceId parentId now)] @
                    (if noticeKey parentId threadId \<in> notices then []
                     else [Dispatch (AddAssistantMessage parentId (noticeText threadId))]) @
                    (if Some parentId \<noteq> activeThreadId
                     then [Dispatch (MarkUnread parentId True)] else []) @
                    [SafeMessageActivity],
                    insert (noticeKey parentId threadId) notices)))"

subsection \<open>The turn/started transition\<close>

text \<open>Modelled from the spec: the \<open>turn/started\<close> transition of the thread state machine
  (section 4.3: "turn/started: set Processing, set activeTurnId"). The handler that
  applies canonical events (useAppServerEvents, useThreadEventHandlers and the reducer) is
  not under src/. The thread and the turn are those of \<open>params.turn\<close>.\<close>

definition applyTurnStarted :: "app_server_event \<Rightarrow> thread_state \<Rightarrow> thread_state" where
  "applyTurnStarted ev state =
     (if msg_method (message ev) \<noteq> ''turn/started'' then state
      else
        (case (getProp (getProp (msg_params (message ev)) ''turn'') ''threadId'',
               getProp (getProp (msg_params (message ev)) ''turn'') ''id'') of
           (JStr threadId, JStr turnId) \<Rightarrow>
             state\<lparr>threadStatusById :=
                      setProp threadId
                        (case map_of (threadStatusById state) threadId of
                           None \<Rightarrow> \<lparr>isProcessing = True, isReviewing = False\<rparr>
                         | Some st \<Rightarrow> st\<lparr>isProcessing := True\<rparr>)
                        (threadStatusById state),
                    activeTurnIdByThread :=
                      setProp threadId (Some turnId) (activeTurnIdByThread state)\<rparr>
         | _ \<Rightarrow> state))"

text \<open>Whether a thread is Processing: the \<open>isProcessing\<close> flag of its status.\<close>

definition threadProcessing :: "thread_state \<Rightarrow> string \<Rightarrow> bool" where
  "threadProcessing state threadId =
     (case map_of (threadStatusById state) threadId of None \<Rightarrow> False | Some st \<Rightarrow> isProcessing st)"

text \<open>Whether a thread is Reviewing: the \<open>isReviewing\<close> flag of its status
  (\<open>state.threadStatusById[id]?.isReviewing\<close>).\<close>

definition threadReviewing :: "thread_state \<Rightarrow> string \<Rightarrow> bool" where
  "threadReviewing state threadId =
     (case map_of (threadStatusById state) threadId of None \<Rightarrow> False | Some st \<Rightarrow> isReviewing st)"

text \<open>The notices among the effects of a callback: the thread and the text of each
  dispatched \<open>addAssistantMessage\<close>, in order.\<close>

fun noticesIn :: "effect list \<Rightarrow> (string \<times> string) list" where
  "noticesIn [] = []"
| "noticesIn (Dispatch (AddAssistantMessage threadId txt) # rest) = (threadId, txt) # noticesIn rest"
| "noticesIn (_ # rest) = noticesIn rest"

section \<open>Sample values\<close>

text \<open>Concrete events, states and SDK behaviours on which the theorems below are
  exercised: the synthetic \<open>session.info\<close> event of \<open>connectWorkspace\<close>, a native
  \<open>assistant.turn_start\<close>, a service with no connection, one with workspace \<open>W\<close>
  connected with and without a session, an SDK that resolves every call and one that
  rejects every call, and a thread state where thread \<open>T\<close> is Processing.\<close>

definition connectedEvent :: session_event where
  "connectedEvent =
     \<lparr>ev_id = Some ''connected-1000'', ev_timestamp = ''1970-01-01T00:00:01.000Z'',
      ev_parentId = None, ev_type = ''session.info'',
      ev_data = JObj [(''infoType'', JStr ''connected''), (''message'', JStr ''Workspace connected'')]\<rparr>"

definition turnStartEvent :: session_event where
  "turnStartEvent =
     \<lparr>ev_id = Some ''t1'', ev_timestamp = [], ev_parentId = None,
      ev_type = ''assistant.turn_start'', ev_data = JUndefined\<rparr>"

definition idleService :: service_state where
  "idleService = \<lparr>workspaceClients = Map.empty, emitted = []\<rparr>"

definition sampleSdk :: sdk where
  "sampleSdk =
     \<lparr>sdk_createSession = (\<lambda>c cfg. Inr \<lparr>sessionId = ''S2''\<rparr>),
      sdk_destroy = (\<lambda>sess. Inr ()),
      sdk_abort = (\<lambda>sess. Inr ()),
      sdk_send = (\<lambda>sess opts. Inr ''message-1''),
      sdk_listModels = (\<lambda>c. Inr []),
      sdk_getAuthStatus = (\<lambda>c. Inr \<lparr>isAuthenticated = True, login = Some ''octocat''\<rparr>)\<rparr>"

definition connectedService :: service_state where
  "connectedService =
     \<lparr>workspaceClients =
        [''W'' \<mapsto> \<lparr>client = \<lparr>client_cwd = ''/repo'', client_cliPath = None, client_cliArgs = None\<rparr>,
                   session = Some \<lparr>sessionId = ''S1''\<rparr>,
                   workspacePath = ''/repo'', connected = True\<rparr>],
      emitted = []\<rparr>"

definition busyThreads :: thread_state where
  "busyThreads =
     \<lparr>threadsByWorkspace = [(''W'', [\<lparr>ts_id = ''T'', ts_name = ''Thread'', ts_updatedAt = Some 1\<rparr>])],
      itemsByThread = [],
      threadParentById = [],
      threadStatusById = [(''T'', \<lparr>isProcessing = True, isReviewing = False\<rparr>)],
      activeTurnIdByThread = [(''T'', Some ''turn-1000'')],
      activeThreadIdByWorkspace = [(''W'', Some ''T'')]\<rparr>"

text \<open>The thread of session \<open>S1\<close> (a thread's id is its session's id) at rest: not
  Processing, not Reviewing, no active turn.\<close>

definition idleThreads :: thread_state where
  "idleThreads =
     \<lparr>threadsByWorkspace = [(''W'', [\<lparr>ts_id = ''S1'', ts_name = ''Thread'', ts_updatedAt = Some 1\<rparr>])],
      itemsByThread = [],
      threadParentById = [],
      threadStatusById = [(''S1'', \<lparr>isProcessing = False, isReviewing = False\<rparr>)],
      activeTurnIdByThread = [(''S1'', None)],
      activeThreadIdByWorkspace = [(''W'', Some ''S1'')]\<rparr>"

definition sessionlessService :: service_state where
  "sessionlessService =
     \<lparr>workspaceClients =
        [''W'' \<mapsto> \<lparr>client = \<lparr>client_cwd = ''/repo'', client_cliPath = None, client_cliArgs = None\<rparr>,
                   session = None,
                   workspacePath = ''/repo'', connected = True\<rparr>],
      emitted = []\<rparr>"

definition rejectingSdk :: sdk where
  "rejectingSdk =
     \<lparr>sdk_createSession = (\<lambda>c cfg. Inl (Error ''create rejected'')),
      sdk_destroy = (\<lambda>sess. Inl (Error ''destroy rejected'')),
      sdk_abort = (\<lambda>sess. Inl (Error ''abort rejected'')),
      sdk_send = (\<lambda>sess opts. Inl (Error ''send rejected'')),
      sdk_listModels = (\<lambda>c. Inl (Error ''models rejected'')),
      sdk_getAuthStatus = (\<lambda>c. Inl (Error ''auth rejected''))\<rparr>"

text \<open>A workspace \<open>W\<close> with one live thread \<open>A\<close> that has a live item log, and a
  persisted snapshot that holds a stale copy of \<open>A\<close>, a \<open>null\<close> entry and a thread \<open>B\<close>
  that is not live, with item logs for both.\<close>

definition liveThread :: thread_summary where
  "liveThread = \<lparr>ts_id = ''A'', ts_name = ''Live thread'', ts_updatedAt = Some 50\<rparr>"



definition userItem :: "string \<Rightarrow> json" where
  "userItem txt = JObj [(''id'', JStr ''u1''), (''kind'', JStr ''message''), (''role'', JStr ''user''), (''text'', JStr txt)]"


definition liveThreads :: thread_state where
  "liveThreads =
     \<lparr>threadsByWorkspace = [(''W'', [liveThread])],
      itemsByThread = [(''A'', [userItem ''live question''])],
      threadParentById = [],
      threadStatusById = [],
      activeTurnIdByThread = [],
      activeThreadIdByWorkspace = []\<rparr>"


text \<open>A review thread \<open>R\<close> detached from its parent \<open>P\<close>; the parameter says whether
  \<open>P\<close> is marked Reviewing.\<close>

definition reviewThreads :: "bool \<Rightarrow> thread_state" where
  "reviewThreads parentReviewing =
     \<lparr>threadsByWorkspace =
        [(''W'', [\<lparr>ts_id = ''P'', ts_name = ''Parent'', ts_updatedAt = Some 10\<rparr>,
                  \<lparr>ts_id = ''R'', ts_name = ''Review'', ts_updatedAt = Some 20\<rparr>])],
      itemsByThread = [],
      threadParentById = [(''R'', ''P'')],
      threadStatusById = [(''P'', \<lparr>isProcessing = False, isReviewing = parentReviewing\<rparr>),
                          (''R'', \<lparr>isProcessing = False, isReviewing = False\<rparr>)],
      activeTurnIdByThread = [],
      activeThreadIdByWorkspace = [(''W'', Some ''R'')]\<rparr>"

text \<open>The save effect before its first write.\<close>

definition nothingSaved :: save_state where
  "nothingSaved = \<lparr>lastSavedHistory = Map.empty, writes = []\<rparr>"

section \<open>Properties\<close>

lemma map_of_setProp [simp]: "map_of (setProp k v kvs) k = Some v"
  by (induction kvs) auto

subsection \<open>The adapter\<close>

text \<open>C5: a native event whose type \<open>mapEventToMethod\<close> does not know is translated to
  the passthrough event with method \<open>copilot/<type>\<close> and the raw payload
  \<open>event.data\<close> as params (the empty object when the event has no payload); the event
  callback emits exactly that event, so the event is not dropped.\<close>

theorem unmapped_event_passthrough:
  assumes "mapEventToMethod event = None"
  shows "transformEvent workspaceId event =
           Inr (Some \<lparr>workspace_id = workspaceId,
                      message = \<lparr>msg_method = ''copilot/'' @ ev_type event,
                                 msg_params = (if ev_data event = JUndefined \<or> ev_data event = JNull
                                               then JObj [] else ev_data event)\<rparr>\<rparr>)
         \<and> copilotEventCallback workspaceId event s =
           Inr (s\<lparr>emitted := emitted s @
                  [\<lparr>workspace_id = workspaceId,
                    message = \<lparr>msg_method = ''copilot/'' @ ev_type event,
                               msg_params = (if ev_data event = JUndefined \<or> ev_data event = JNull
                                             then JObj [] else ev_data event)\<rparr>\<rparr>]\<rparr>)"
  using assms
  by (simp add: transformEvent_def copilotEventCallback_def emitAppServerEvent_def mkEvent_def
      nullish_def isNullish_def)

theorem unmapped_event_passthrough_witness:
  "mapEventToMethod connectedEvent = None
   \<and> transformEvent ''W'' connectedEvent =
       Inr (Some \<lparr>workspace_id = ''W'',
                  message = \<lparr>msg_method = ''copilot/session.info'',
                             msg_params = JObj [(''infoType'', JStr ''connected''),
                                                (''message'', JStr ''Workspace connected'')]\<rparr>\<rparr>)
   \<and> emitted (projr (copilotEventCallback ''W'' connectedEvent idleService)) =
       [\<lparr>workspace_id = ''W'',
         message = \<lparr>msg_method = ''copilot/session.info'',
                    msg_params = JObj [(''infoType'', JStr ''connected''),
                                       (''message'', JStr ''Workspace connected'')]\<rparr>\<rparr>]"
proof -
  have h: "mapEventToMethod connectedEvent = None"
    by (simp add: mapEventToMethod_def connectedEvent_def)
  show ?thesis
    using h unmapped_event_passthrough [OF h, of "''W''" idleService]
    by (simp add: connectedEvent_def idleService_def)
qed

text \<open>C2 (as stated): the claim gives the canonical event of the native event
  \<open>{type: "assistant.turn_start", id: "t1"}\<close> on workspace \<open>W\<close> as
  \<open>{method: "turn/started", params: {turn: {id: "t1", threadId: W}}}\<close>. The adapter's
  event is not that one: its params carry \<open>threadId\<close> beside \<open>turn\<close>.\<close>

theorem turn_start_translation_counterexample:
  "transformEvent ''W'' turnStartEvent \<noteq>
     Inr (Some \<lparr>workspace_id = ''W'',
                message = \<lparr>msg_method = ''turn/started'',
                           msg_params = JObj [(''turn'', JObj [(''id'', JStr ''t1''),
                                                               (''threadId'', JStr ''W'')])]\<rparr>\<rparr>)"
  by (simp add: transformEvent_def mapEventToMethod_def eventParams_def turnStartEvent_def
      mkEvent_def turnParams_def eventIdOr_def)

text \<open>C2 (amended): whatever its timestamp, parent and payload, that native event is
  translated to \<open>{method: "turn/started", params: {threadId: W, turn: {id: "t1",
  threadId: W}}}\<close>, and the \<open>turn/started\<close> transition on that event leaves thread \<open>W\<close>
  Processing with active turn \<open>t1\<close>.\<close>

theorem turn_start_translation:
  "transformEvent W (\<lparr>ev_id = Some ''t1'', ev_timestamp = ts, ev_parentId = p,
                      ev_type = ''assistant.turn_start'', ev_data = d\<rparr>) =
     Inr (Some \<lparr>workspace_id = W,
                message = \<lparr>msg_method = ''turn/started'',
                           msg_params = JObj [(''threadId'', JStr W),
                                              (''turn'', JObj [(''id'', JStr ''t1''),
                                                               (''threadId'', JStr W)])]\<rparr>\<rparr>)
   \<and> threadProcessing
        (applyTurnStarted
           \<lparr>workspace_id = W,
            message = \<lparr>msg_method = ''turn/started'',
                       msg_params = JObj [(''threadId'', JStr W),
                                          (''turn'', JObj [(''id'', JStr ''t1''),
                                                           (''threadId'', JStr W)])]\<rparr>\<rparr>
           state) W
   \<and> map_of (activeTurnIdByThread
        (applyTurnStarted
           \<lparr>workspace_id = W,
            message = \<lparr>msg_method = ''turn/started'',
                       msg_params = JObj [(''threadId'', JStr W),
                                          (''turn'', JObj [(''id'', JStr ''t1''),
                                                           (''threadId'', JStr W)])]\<rparr>\<rparr>
           state)) W = Some (Some ''t1'')"
  by (simp add: transformEvent_def mapEventToMethod_def eventParams_def turnStartEvent_def
      mkEvent_def turnParams_def eventIdOr_def applyTurnStarted_def threadProcessing_def
      split: option.splits)

subsection \<open>The SDK service and the backend commands\<close>

text \<open>C9: for a workspace id that is not in \<open>workspaceClients\<close>, \<open>createSession\<close>,
  \<open>listModels\<close> and \<open>getAuthStatus\<close> reject with the error
  \<open>Workspace <id> is not connected\<close> and return the state, so the connection map, as it
  was.\<close>

theorem not_connected_rejects:
  assumes "workspaceClients s workspaceId = None"
  shows "createSession k workspaceId config s =
           (Inl (Error (''Workspace '' @ workspaceId @ '' is not connected'')), s)
       \<and> listModels k workspaceId s =
           (Inl (Error (''Workspace '' @ workspaceId @ '' is not connected'')), s)
       \<and> getAuthStatus k workspaceId s =
           (Inl (Error (''Workspace '' @ workspaceId @ '' is not connected'')), s)"
  using assms by (simp add: createSession_def listModels_def getAuthStatus_def notConnected_def)

theorem not_connected_rejects_witness:
  "workspaceClients connectedService ''V'' = None
   \<and> createSession sampleSdk ''V'' None connectedService =
       (Inl (Error ''Workspace V is not connected''), connectedService)
   \<and> listModels sampleSdk ''V'' connectedService =
       (Inl (Error ''Workspace V is not connected''), connectedService)
   \<and> getAuthStatus sampleSdk ''V'' connectedService =
       (Inl (Error ''Workspace V is not connected''), connectedService)"
proof -
  have h: "workspaceClients connectedService ''V'' = None"
    by (simp add: connectedService_def)
  show ?thesis
    using h not_connected_rejects [OF h, of sampleSdk None]
    by simp
qed

text \<open>C7 (as stated): the claim has an interrupt of a thread with no active turn
  complete without error. \<open>interruptTurn\<close> does not look for a turn: it returns early
  only when the workspace has no session. With workspace \<open>W\<close> holding session \<open>S1\<close>,
  its thread at rest and no \<open>turn/started\<close> ever emitted, the call goes to the SDK's
  \<open>session.abort()\<close>, and when that rejects the interrupt rejects.\<close>

theorem interruptTurn_on_idle_thread_counterexample:
  "\<not> threadProcessing idleThreads ''S1''
   \<and> \<not> threadReviewing idleThreads ''S1''
   \<and> map_of (activeTurnIdByThread idleThreads) ''S1'' = Some None
   \<and> emitted connectedService = []
   \<and> activeSession connectedService ''W'' = Some \<lparr>sessionId = ''S1''\<rparr>
   \<and> interruptTurn rejectingSdk ''W'' connectedService =
       (Inl (Error ''abort rejected''), connectedService)"
  by (simp add: threadProcessing_def threadReviewing_def idleThreads_def connectedService_def
      activeSession_def interruptTurn_def abortSession_def rejectingSdk_def)

text \<open>C7 (amended): \<open>interruptTurn\<close> never changes the state. On a workspace with no
  active session it is a no-op that completes without error, without calling the SDK.
  On a workspace with a session, whether or not a turn is active, the call is the SDK's
  \<open>session.abort()\<close>: it completes without error exactly when that resolves, and
  rejects with the same error when that rejects.\<close>

theorem interruptTurn_outcome:
  "snd (interruptTurn k workspaceId s) = s
   \<and> (activeSession s workspaceId = None \<longrightarrow> interruptTurn k workspaceId s = (Inr (), s))
   \<and> (\<forall>sess. activeSession s workspaceId = Some sess \<longrightarrow>
          interruptTurn k workspaceId s = (sdk_abort k sess, s))"
  by (auto simp: interruptTurn_def abortSession_def split: option.splits)

theorem interruptTurn_outcome_witness:
  "activeSession sessionlessService ''W'' = None
   \<and> interruptTurn rejectingSdk ''W'' sessionlessService = (Inr (), sessionlessService)
   \<and> activeSession idleService ''W'' = None
   \<and> interruptTurn rejectingSdk ''W'' idleService = (Inr (), idleService)
   \<and> activeSession connectedService ''W'' = Some \<lparr>sessionId = ''S1''\<rparr>
   \<and> interruptTurn sampleSdk ''W'' connectedService = (Inr (), connectedService)
   \<and> interruptTurn rejectingSdk ''W'' connectedService =
       (Inl (Error ''abort rejected''), connectedService)"
proof -
  have h1: "activeSession sessionlessService ''W'' = None"
    by (simp add: activeSession_def sessionlessService_def)
  have h2: "activeSession idleService ''W'' = None"
    by (simp add: activeSession_def idleService_def)
  have h3: "activeSession connectedService ''W'' = Some \<lparr>sessionId = ''S1''\<rparr>"
    by (simp add: activeSession_def connectedService_def)
  have a1: "sdk_abort sampleSdk \<lparr>sessionId = ''S1''\<rparr> = Inr ()"
    by (simp add: sampleSdk_def)
  have a2: "sdk_abort rejectingSdk \<lparr>sessionId = ''S1''\<rparr> = Inl (Error ''abort rejected'')"
    by (simp add: rejectingSdk_def)
  note none = interruptTurn_outcome [THEN conjunct2, THEN conjunct1, rule_format]
  note some = interruptTurn_outcome [THEN conjunct2, THEN conjunct2, rule_format]
  from h1 h2 h3 none [OF h1, of rejectingSdk] none [OF h2, of rejectingSdk]
    some [OF h3, of sampleSdk] some [OF h3, of rejectingSdk] a1 a2
  show ?thesis by simp
qed

text \<open>C10: every call of \<open>sendUserMessage\<close> appends exactly one event to the emitted
  stream, the \<open>turn/started\<close> event whose turn id is \<open>turn-\<close> followed by the clock
  reading; \<open>sendMessage\<close> runs on the state in which that event is already emitted, so
  the event is there also when the send fails (no active session, or the SDK rejects).\<close>

theorem sendUserMessage_emits_turn_started_first:
  "emitted (snd (sendUserMessage k now workspaceId threadId txt options s)) =
     emitted s @ [turnStartedEvent workspaceId threadId now]
   \<and> fst (sendUserMessage k now workspaceId threadId txt options s) =
     map_sum (\<lambda>e. e) (\<lambda>r. ())
       (fst (sendMessage k workspaceId txt (forwardedOptions options)
               (emitAppServerEvent (turnStartedEvent workspaceId threadId now) s)))
   \<and> turnStartedEvent workspaceId threadId now =
     \<lparr>workspace_id = workspaceId,
      message = \<lparr>msg_method = ''turn/started'',
                 msg_params = JObj [(''threadId'', JStr threadId),
                                    (''turn'', JObj [(''id'', JStr (''turn-'' @ showInt now)),
                                                     (''threadId'', JStr threadId)])]\<rparr>\<rparr>
   \<and> (activeSession s workspaceId = None \<longrightarrow>
        fst (sendUserMessage k now workspaceId threadId txt options s) =
          Inl (Error (''No active session for workspace '' @ workspaceId)))
   \<and> (\<forall>sess e. activeSession s workspaceId = Some sess
          \<and> sdk_send k sess (messageOptions txt (forwardedOptions options)) = Inl e \<longrightarrow>
        fst (sendUserMessage k now workspaceId threadId txt options s) = Inl e)"
  by (auto simp: sendUserMessage_def sendMessage_def emitAppServerEvent_def activeSession_def
      turnStartedEvent_def mkEvent_def noActiveSession_def
      split: option.splits sum.splits prod.splits)

theorem sendUserMessage_emits_turn_started_first_witness:
  "activeSession idleService ''W'' = None
   \<and> sendUserMessage sampleSdk 1700000000000 ''W'' ''T'' ''hello'' None idleService =
       (Inl (Error ''No active session for workspace W''),
        idleService\<lparr>emitted := [turnStartedEvent ''W'' ''T'' 1700000000000]\<rparr>)
   \<and> activeSession connectedService ''W'' = Some \<lparr>sessionId = ''S1''\<rparr>
   \<and> sdk_send rejectingSdk \<lparr>sessionId = ''S1''\<rparr> (messageOptions ''hello'' (forwardedOptions None)) =
       Inl (Error ''send rejected'')
   \<and> fst (sendUserMessage rejectingSdk 1700000000000 ''W'' ''T'' ''hello'' None connectedService) =
       Inl (Error ''send rejected'')
   \<and> emitted (snd (sendUserMessage rejectingSdk 1700000000000 ''W'' ''T'' ''hello'' None connectedService)) =
       [turnStartedEvent ''W'' ''T'' 1700000000000]
   \<and> getProp (getProp (msg_params (message (turnStartedEvent ''W'' ''T'' 1700000000000))) ''turn'') ''id'' =
       JStr ''turn-1700000000000''"
proof -
  have h1: "activeSession idleService ''W'' = None"
    by (simp add: activeSession_def idleService_def)
  have h2: "activeSession connectedService ''W'' = Some \<lparr>sessionId = ''S1''\<rparr>"
    by (simp add: activeSession_def connectedService_def)
  have h3: "sdk_send rejectingSdk \<lparr>sessionId = ''S1''\<rparr> (messageOptions ''hello'' (forwardedOptions None)) =
       Inl (Error ''send rejected'')"
    by (simp add: rejectingSdk_def)
  have h4: "showInt 1700000000000 = ''1700000000000''"
    by (simp add: showInt_def showNat.simps digitChar_def)
  have e1: "emitted idleService = []" by (simp add: idleService_def)
  have e2: "emitted connectedService = []" by (simp add: connectedService_def)
  note a = sendUserMessage_emits_turn_started_first
             [of sampleSdk 1700000000000 "''W''" "''T''" "''hello''" None idleService]
  note b = sendUserMessage_emits_turn_started_first
             [of rejectingSdk 1700000000000 "''W''" "''T''" "''hello''" None connectedService]
  have r1: "fst (sendUserMessage sampleSdk 1700000000000 ''W'' ''T'' ''hello'' None idleService) =
          Inl (Error ''No active session for workspace W'')"
    using a [THEN conjunct2, THEN conjunct2, THEN conjunct2, THEN conjunct1] h1 by simp
  have r2: "snd (sendUserMessage sampleSdk 1700000000000 ''W'' ''T'' ''hello'' None idleService) =
          idleService\<lparr>emitted := [turnStartedEvent ''W'' ''T'' 1700000000000]\<rparr>"
    by (simp add: sendUserMessage_def sendMessage_def emitAppServerEvent_def activeSession_def
        idleService_def)
  have r3: "fst (sendUserMessage rejectingSdk 1700000000000 ''W'' ''T'' ''hello'' None connectedService) =
       Inl (Error ''send rejected'')"
    using b h2 h3 by blast
  have r4: "emitted (snd (sendUserMessage rejectingSdk 1700000000000 ''W'' ''T'' ''hello'' None connectedService)) =
       [turnStartedEvent ''W'' ''T'' 1700000000000]"
    using b [THEN conjunct1] e2 by simp
  have r5: "getProp (getProp (msg_params (message (turnStartedEvent ''W'' ''T'' 1700000000000))) ''turn'') ''id'' =
       JStr ''turn-1700000000000''"
    using b [THEN conjunct2, THEN conjunct2, THEN conjunct1] h4 by simp
  show ?thesis
    using h1 h2 h3 r1 r2 r3 r4 r5 by (simp add: prod_eq_iff)
qed

text \<open>C1 (as stated): the claim has \<open>sendUserMessage\<close> reject a call on a thread
  that is Processing and leave the state as it was. With thread \<open>T\<close> Processing and
  workspace \<open>W\<close> holding a session, the call resolves and a second \<open>turn/started\<close>
  event for \<open>T\<close> is emitted.\<close>

theorem sendUserMessage_on_processing_thread_counterexample:
  "threadProcessing busyThreads ''T''
   \<and> sendUserMessage sampleSdk 2000 ''W'' ''T'' ''again'' None connectedService =
       (Inr (), connectedService\<lparr>emitted := [turnStartedEvent ''W'' ''T'' 2000]\<rparr>)
   \<and> connectedService\<lparr>emitted := [turnStartedEvent ''W'' ''T'' 2000]\<rparr> \<noteq> connectedService"
proof -
  have "connectedService\<lparr>emitted := [turnStartedEvent ''W'' ''T'' 2000]\<rparr> \<noteq> connectedService"
  proof
    assume "connectedService\<lparr>emitted := [turnStartedEvent ''W'' ''T'' 2000]\<rparr> = connectedService"
    then have "emitted (connectedService\<lparr>emitted := [turnStartedEvent ''W'' ''T'' 2000]\<rparr>) = emitted connectedService"
      by simp
    then show False by (simp add: connectedService_def)
  qed
  then show ?thesis
  by (simp add: threadProcessing_def busyThreads_def sendUserMessage_def sendMessage_def
      activeSession_def connectedService_def sampleSdk_def emitAppServerEvent_def)
qed

text \<open>C1 (amended): \<open>sendUserMessage\<close> takes no thread status and checks none. Every
  call emits the \<open>turn/started\<close> event for the thread and changes nothing else; it is
  rejected exactly when the workspace has no active session (with
  \<open>No active session for workspace W\<close>) or when the SDK's \<open>session.send\<close> rejects.\<close>

theorem sendUserMessage_result:
  "sendUserMessage k now workspaceId threadId txt options s =
     (case activeSession s workspaceId of
        None \<Rightarrow> Inl (Error (''No active session for workspace '' @ workspaceId))
      | Some sess \<Rightarrow>
          (case sdk_send k sess (messageOptions txt (forwardedOptions options)) of
             Inl e \<Rightarrow> Inl e
           | Inr messageId \<Rightarrow> Inr ()),
      s\<lparr>emitted := emitted s @ [turnStartedEvent workspaceId threadId now]\<rparr>)"
  by (simp add: sendUserMessage_def sendMessage_def emitAppServerEvent_def activeSession_def
      noActiveSession_def split: option.splits sum.splits)

subsection \<open>Merge on load\<close>









subsection \<open>The notice of a detached review\<close>

lemma noticesIn_append [simp]: "noticesIn (xs @ ys) = noticesIn xs @ noticesIn ys"
  by (induction xs rule: noticesIn.induct) auto

text \<open>C4 (as stated): the claim has every detached review \<open>R\<close> with parent \<open>P\<close> that
  ends leave one notice on \<open>P\<close>. When \<open>P\<close> is not marked Reviewing, \<open>handleReviewExited\<close>
  returns before doing anything: no notice, no unread mark.\<close>

theorem review_exit_with_idle_parent_counterexample:
  "map_of (threadParentById (reviewThreads False)) ''R'' = Some ''P''
   \<and> handleReviewExited (reviewThreads False) (Some ''R'') 1000 {} ''W'' ''R'' = ([], {})"
  by (simp add: handleReviewExited_def reviewThreads_def)

text \<open>C4 (amended): let \<open>R\<close> have the parent \<open>P\<close>, non-empty and other than \<open>R\<close>. When
  \<open>P\<close> is marked Reviewing and no notice is recorded for the pair, \<open>handleReviewExited\<close>
  dispatches exactly one notice, on \<open>P\<close> and linking to \<open>R\<close>, marks \<open>P\<close> unread exactly
  when \<open>P\<close> is not the active thread, and a later call for the same pair, in whatever
  state, dispatches no notice. When \<open>P\<close> is not marked Reviewing the call does
  nothing.\<close>

theorem handleReviewExited_notifies_once:
  assumes "map_of (threadParentById state) threadId = Some parentId"
    and "parentId \<noteq> []" and "parentId \<noteq> threadId"
  shows "(threadReviewing state parentId \<and> noticeKey parentId threadId \<notin> notices \<longrightarrow>
            noticesIn (fst (handleReviewExited state activeThreadId now notices workspaceId threadId)) =
              [(parentId, ''Detached review completed. [Open review thread](/thread/'' @ threadId @ '')'')]
          \<and> (Dispatch (MarkUnread parentId True)
                \<in> set (fst (handleReviewExited state activeThreadId now notices workspaceId threadId)))
              = (activeThreadId \<noteq> Some parentId)
          \<and> (\<forall>state' active' now'.
                map_of (threadParentById state') threadId = Some parentId \<longrightarrow>
                noticesIn (fst (handleReviewExited state' active' now'
                   (snd (handleReviewExited state activeThreadId now notices workspaceId threadId))
                   workspaceId threadId)) = []))
       \<and> (\<not> threadReviewing state parentId \<longrightarrow>
            handleReviewExited state activeThreadId now notices workspaceId threadId = ([], notices))"
  using assms
  by (auto simp: handleReviewExited_def threadReviewing_def noticeText_def split: option.splits)

theorem handleReviewExited_notifies_once_witness:
  "map_of (threadParentById (reviewThreads True)) ''R'' = Some ''P''
   \<and> threadReviewing (reviewThreads True) ''P''
   \<and> noticeKey ''P'' ''R'' \<notin> {}
   \<and> noticesIn (fst (handleReviewExited (reviewThreads True) (Some ''R'') 1000 {} ''W'' ''R'')) =
       [(''P'', ''Detached review completed. [Open review thread](/thread/R)'')]
   \<and> Dispatch (MarkUnread ''P'' True)
       \<in> set (fst (handleReviewExited (reviewThreads True) (Some ''R'') 1000 {} ''W'' ''R''))
   \<and> noticesIn (fst (handleReviewExited (reviewThreads True) (Some ''R'') 2000
        (snd (handleReviewExited (reviewThreads True) (Some ''R'') 1000 {} ''W'' ''R'')) ''W'' ''R'')) = []
   \<and> \<not> threadReviewing (reviewThreads False) ''P''
   \<and> handleReviewExited (reviewThreads False) (Some ''R'') 1000 {} ''W'' ''R'' = ([], {})"
proof -
  have p: "map_of (threadParentById (reviewThreads b)) ''R'' = Some ''P''" for b
    by (simp add: reviewThreads_def)
  have r: "threadReviewing (reviewThreads True) ''P''"
    by (simp add: threadReviewing_def reviewThreads_def)
  have n: "\<not> threadReviewing (reviewThreads False) ''P''"
    by (simp add: threadReviewing_def reviewThreads_def)
  have k: "noticeKey ''P'' ''R'' \<notin> {}" by simp
  have q1: "''P'' \<noteq> ([] :: string)" by simp
  have q2: "''P'' \<noteq> ''R''" by simp
  note yes = handleReviewExited_notifies_once
      [where activeThreadId = "Some ''R''" and now = 1000 and notices = "{}" and workspaceId = "''W''",
       OF p [of True] q1 q2, THEN conjunct1, rule_format, OF conjI [OF r k]]
  note no = handleReviewExited_notifies_once
      [where activeThreadId = "Some ''R''" and now = 1000 and notices = "{}" and workspaceId = "''W''",
       OF p [of False] q1 q2, THEN conjunct2, rule_format, OF n]
  have a: "noticesIn (fst (handleReviewExited (reviewThreads True) (Some ''R'') 1000 {} ''W'' ''R'')) =
       [(''P'', ''Detached review completed. [Open review thread](/thread/R)'')]"
    using yes by simp
  have b: "Dispatch (MarkUnread ''P'' True)
       \<in> set (fst (handleReviewExited (reviewThreads True) (Some ''R'') 1000 {} ''W'' ''R''))"
    using yes by simp
  have c: "noticesIn (fst (handleReviewExited (reviewThreads True) (Some ''R'') 2000
        (snd (handleReviewExited (reviewThreads True) (Some ''R'') 1000 {} ''W'' ''R'')) ''W'' ''R'')) = []"
    using yes p [of True] by simp
  have d: "handleReviewExited (reviewThreads False) (Some ''R'') 1000 {} ''W'' ''R'' = ([], {})"
    using no by simp
  from p [of True] r k a b c n d show ?thesis by blast
qed

subsection \<open>The save effect and the clock\<close>

text \<open>The decimal rendering of a clock reading determines the reading, and the
  serialized snapshot ends with \<open>savedAt\<close>: two snapshots of one state serialize alike
  only when they were built at the same clock reading.\<close>

lemma digitChar_inj: "a < 10 \<Longrightarrow> b < 10 \<Longrightarrow> digitChar a = digitChar b \<Longrightarrow> a = b"
proof -
  assume a: "a < 10" and b: "b < 10" and e: "digitChar a = digitChar b"
  have d: "distinct ''0123456789''" by simp
  have l: "length ''0123456789'' = 10" by simp
  from e have "''0123456789'' ! a = ''0123456789'' ! b" by (simp add: digitChar_def)
  with d a b l show "a = b" by (metis nth_eq_iff_index_eq)
qed

lemma digitChar_not_minus: "d < 10 \<Longrightarrow> digitChar d \<noteq> CHR ''-''"
proof -
  assume "d < 10"
  then have "''0123456789'' ! d \<in> set ''0123456789''" by (intro nth_mem) simp
  then show ?thesis by (auto simp: digitChar_def)
qed

lemma showNat_nonempty: "showNat n \<noteq> []"
  by (subst showNat.simps) simp

lemma showNat_no_minus: "CHR ''-'' \<notin> set (showNat n)"
proof (induction n rule: showNat.induct)
  case (1 n)
  show ?case
  proof (cases "n < 10")
    case True
    then show ?thesis using digitChar_not_minus [of n] by (subst showNat.simps) auto
  next
    case False
    then have "n mod 10 < 10" by simp
    with False 1 show ?thesis
      using digitChar_not_minus [of "n mod 10"] by (subst showNat.simps) auto
  qed
qed

lemma showNat_inj: "showNat n = showNat m \<Longrightarrow> n = m"
proof (induction n arbitrary: m rule: showNat.induct)
  case (1 n)
  show ?case
  proof (cases "n < 10")
    case True
    show ?thesis
    proof (cases "m < 10")
      case mt: True
      from "1.prems" True mt have "digitChar n = digitChar m"
        by (simp add: showNat.simps [of n] showNat.simps [of m])
      with True mt show ?thesis by (rule digitChar_inj)
    next
      case mf: False
      from "1.prems" True mf have "[digitChar n] = showNat (m div 10) @ [digitChar (m mod 10)]"
        by (simp add: showNat.simps [of n] showNat.simps [of m])
      then have "showNat (m div 10) = []" by simp
      with showNat_nonempty show ?thesis by blast
    qed
  next
    case False
    show ?thesis
    proof (cases "m < 10")
      case mt: True
      from "1.prems" False mt have "showNat (n div 10) @ [digitChar (n mod 10)] = [digitChar m]"
        by (simp add: showNat.simps [of n] showNat.simps [of m])
      then have "showNat (n div 10) = []" by simp
      with showNat_nonempty show ?thesis by blast
    next
      case mf: False
      from "1.prems" False mf
      have "showNat (n div 10) @ [digitChar (n mod 10)] = showNat (m div 10) @ [digitChar (m mod 10)]"
        by (simp add: showNat.simps [of n] showNat.simps [of m])
      then have e1: "showNat (n div 10) = showNat (m div 10)"
        and e2: "digitChar (n mod 10) = digitChar (m mod 10)" by simp_all
      from "1.IH" [OF False e1] have d: "n div 10 = m div 10" .
      have "n mod 10 < 10" "m mod 10 < 10" by simp_all
      with e2 have r: "n mod 10 = m mod 10" by (rule_tac digitChar_inj)
      from d r show ?thesis by (metis div_mult_mod_eq)
    qed
  qed
qed

lemma showInt_inj: "showInt a = showInt b \<Longrightarrow> a = b"
proof -
  assume e: "showInt a = showInt b"
  have hdn: "hd (showNat n) \<noteq> CHR ''-''" for n
    using showNat_no_minus [of n] showNat_nonempty [of n] by (cases "showNat n") auto
  show "a = b"
  proof (cases "a < 0")
    case True
    show ?thesis
    proof (cases "b < 0")
      case bt: True
      with True e have "showNat (nat (- a)) = showNat (nat (- b))" by (simp add: showInt_def)
      then have "nat (- a) = nat (- b)" by (rule showNat_inj)
      with True bt show ?thesis by simp
    next
      case bf: False
      with True e have "CHR ''-'' # showNat (nat (- a)) = showNat (nat b)" by (simp add: showInt_def)
      then have "hd (showNat (nat b)) = CHR ''-''" by (metis list.sel(1))
      with hdn show ?thesis by blast
    qed
  next
    case False
    show ?thesis
    proof (cases "b < 0")
      case bt: True
      with False e have "showNat (nat a) = CHR ''-'' # showNat (nat (- b))" by (simp add: showInt_def)
      then have "hd (showNat (nat a)) = CHR ''-''" by (metis list.sel(1))
      with hdn show ?thesis by blast
    next
      case bf: False
      with False e have "showNat (nat a) = showNat (nat b)" by (simp add: showInt_def)
      then have "nat a = nat b" by (rule showNat_inj)
      with False bf show ?thesis by simp
    qed
  qed
qed

lemma joinWith_snoc:
  "joinWith sep (xs @ [y]) = (if xs = [] then y else joinWith sep xs @ sep @ y)"
  by (induction sep xs rule: joinWith.induct) auto

lemma stringify_savedAt:
  "stringify (JObj (kvs @ [(''savedAt'', JNum a)])) = stringify (JObj (kvs @ [(''savedAt'', JNum b)]))
     \<Longrightarrow> a = b"
  by (auto simp: joinWith_snoc dest: showInt_inj split: if_splits)

lemma snapshot_serial_inj:
  "stringify (buildThreadHistorySnapshot state now1 workspaceId) =
   stringify (buildThreadHistorySnapshot state now2 workspaceId) \<Longrightarrow> now1 = now2"
proof -
  assume e: "stringify (buildThreadHistorySnapshot state now1 workspaceId) =
   stringify (buildThreadHistorySnapshot state now2 workspaceId)"
  obtain kvs where k: "\<And>now. buildThreadHistorySnapshot state now workspaceId = JObj (kvs @ [(''savedAt'', JNum now)])"
    by (auto simp: buildThreadHistorySnapshot_def Let_def
        intro: that [of "[(''version'', JNum 1), (''workspaceId'', JStr workspaceId),
            (''activeThreadId'', (case map_of (activeThreadIdByWorkspace state) workspaceId of
                  Some (Some a) \<Rightarrow> JStr a | _ \<Rightarrow> JNull)),
            (''threads'', JArr (map threadJson (existingThreadsOf state workspaceId))),
            (''itemsByThread'', JObj (snapshotItems state (existingThreadsOf state workspaceId))),
            (''threadParentById'', JObj (snapshotParents state (existingThreadsOf state workspaceId)))]"])
  from e show ?thesis unfolding k by (rule stringify_savedAt)
qed

text \<open>C6: the save effect compares the serialized snapshot with the last one recorded
  for the workspace, and the snapshot holds \<open>savedAt\<close>, the clock. Two runs of the timer
  callback on the same thread state, at clock readings 1000 and 2000, write the workspace
  twice.\<close>

theorem unchanged_history_is_written_twice:
  "writes (saveHistory liveThreads (\<lambda>w. 2000) (saveHistory liveThreads (\<lambda>w. 1000) nothingSaved)) =
     [(''W'', buildThreadHistorySnapshot liveThreads 1000 ''W''),
      (''W'', buildThreadHistorySnapshot liveThreads 2000 ''W'')]"
  by (simp add: saveHistory_def historyWorkspaceIds_def saveWorkspaceHistory_def
      buildThreadHistorySnapshot_def liveThreads_def nothingSaved_def existingThreadsOf_def
      snapshotItems_def snapshotParents_def threadJson_def liveThread_def userItem_def
      quote_def escapeChar_def showInt_def showNat.simps digitChar_def Let_def)

text \<open>Nor is that particular to this state: after a save, a save of any state at
  another clock reading writes again, whether or not anything changed.\<close>

lemma later_save_always_writes:
  "now1 \<noteq> now2 \<Longrightarrow>
   writes (saveWorkspaceHistory state now2 workspaceId (saveWorkspaceHistory state now1 workspaceId sv)) =
     writes (saveWorkspaceHistory state now1 workspaceId sv) @
       [(workspaceId, buildThreadHistorySnapshot state now2 workspaceId)]"
  using snapshot_serial_inj [of state now1 workspaceId now2]
  by (auto simp: saveWorkspaceHistory_def Let_def)

text \<open>At one clock reading the comparison does what it is there for: a second save of
  the same state writes nothing, and a save writes exactly when the serialized snapshot
  is not the one recorded.\<close>

lemma same_clock_once:
  "saveWorkspaceHistory state now workspaceId (saveWorkspaceHistory state now workspaceId sv) =
     saveWorkspaceHistory state now workspaceId sv"
  by (simp add: saveWorkspaceHistory_def Let_def)

lemma write_iff:
  "writes (saveWorkspaceHistory state now workspaceId sv) =
     (if lastSavedHistory sv workspaceId = Some (stringify (buildThreadHistorySnapshot state now workspaceId))
      then writes sv
      else writes sv @ [(workspaceId, buildThreadHistorySnapshot state now workspaceId)])"
  by (simp add: saveWorkspaceHistory_def Let_def)

end
